theory Spec2Isabelle
  imports Main
begin

section \<open>The HTTP binding of the CASPaxos proposer (httpapi/http_proposer.go)\<close>

text \<open>
  The file under study is the HTTP front end of a proposer: nine handlers, each of which
  reads a request, calls one operation of the \<open>protocol.Proposer\<close> interface and writes a
  response. The proposer itself is an interface value, so every handler is modelled for
  an arbitrary implementation: a record of operations over a state type \<open>'s\<close>, each
  operation taking the state and returning its result with the new state.
\<close>

subsection \<open>Bytes, ballots, errors\<close>

text \<open>A Go \<open>[]byte\<close> and a Go \<open>string\<close> are both sequences of 8-bit bytes.\<close>

type_synonym bytes = string

definition NL :: char where
  "NL = CHR 0x0A"

text \<open>
  Modelled from the spec: the package \<open>protocol\<close> (types \<open>Ballot\<close>, \<open>Age\<close>,
  \<open>ConflictError\<close> and the interface \<open>Proposer\<close>) is not part of the sources at hand. The
  spec describes a ballot as the pair (counter: unsigned integer, proposerID: stable
  unique identifier), and an age as the ballot recorded as the floor of a key.
\<close>

record Ballot =
  Counter :: nat
  ID :: string

type_synonym Age = Ballot

text \<open>
  A non-nil Go \<open>error\<close> value, classified by its dynamic type as far as the handlers can
  tell it apart: \<open>protocol.ConflictError\<close> (the only type the file asserts on), the
  quorum failure the spec names, or anything else (for instance the \<open>*url.Error\<close> of
  \<open>url.Parse\<close>). Each value carries the text its \<open>Error()\<close> method yields.
\<close>

datatype error = ConflictError string | QuorumError string | OtherError string

fun err_Error :: "error \<Rightarrow> string" where
  "err_Error (ConflictError m) = m"
| "err_Error (QuorumError m) = m"
| "err_Error (OtherError m) = m"

text \<open>The type assertion \<open>_, ok := err.(protocol.ConflictError)\<close>.\<close>

fun isConflictError :: "error \<Rightarrow> bool" where
  "isConflictError (ConflictError m) = True"
| "isConflictError (QuorumError m) = False"
| "isConflictError (OtherError m) = False"

text \<open>A run-time panic of Go: an index expression out of range (index, length).\<close>

datatype panic = IndexOutOfRange nat nat

definition index :: "'a list \<Rightarrow> nat \<Rightarrow> panic + 'a" where
  "index xs i = (if i < length xs then Inr (xs ! i) else Inl (IndexOutOfRange i (length xs)))"

subsection \<open>The proposer interface and the server\<close>

text \<open>
  \<open>AcceptorClient{URL: u}\<close>: the acceptor handle built from a parsed URL. The URL type of
  \<open>net/url\<close> stays abstract (\<open>'u\<close>).
\<close>

datatype 'u AcceptorClient = AcceptorClient (URL: 'u)

text \<open>
  The operations of \<open>protocol.Proposer\<close> that the handlers call, with the signatures the
  calls and the comments of the file give them. A Go result \<open>(v, err)\<close> is the sum
  \<open>error + v\<close>, a lone \<open>error\<close> result is \<open>error option\<close> (\<open>None\<close> is \<open>nil\<close>). The
  \<open>context.Context\<close> argument carries cancellation only and is left out.
\<close>

record ('s, 'u) Proposer =
  Propose :: "string \<Rightarrow> (bytes \<Rightarrow> bytes) \<Rightarrow> 's \<Rightarrow> (error + bytes \<times> Ballot) \<times> 's"
  AddAccepter :: "'u AcceptorClient \<Rightarrow> 's \<Rightarrow> error option \<times> 's"
  AddPreparer :: "'u AcceptorClient \<Rightarrow> 's \<Rightarrow> error option \<times> 's"
  RemovePreparer :: "'u AcceptorClient \<Rightarrow> 's \<Rightarrow> error option \<times> 's"
  RemoveAccepter :: "'u AcceptorClient \<Rightarrow> 's \<Rightarrow> error option \<times> 's"
  FullIdentityRead :: "string \<Rightarrow> 's \<Rightarrow> (error + bytes) \<times> 's"
  FastForwardIncrement :: "string \<Rightarrow> Ballot \<Rightarrow> 's \<Rightarrow> (error + Age) \<times> 's"

text \<open>
  \<open>ProposerServer\<close>: the wrapped proposer. The embedded router only dispatches a path to
  its handler. The helpers \<open>setBallot\<close>, \<open>getBallot\<close> and \<open>setAge\<close> of the package live in
  a file that is not at hand; they are parameters here, typed as their call sites type
  them: they read or update a header map. The parser \<open>url.Parse\<close> of the Go library is a
  parameter as well: it either fails with an error or yields a URL.
\<close>

type_synonym Header = "string \<rightharpoonup> string"

record ('s, 'u) ProposerServer =
  proposer :: "('s, 'u) Proposer"
  setBallot :: "Header \<Rightarrow> Ballot \<Rightarrow> Header"
  getBallot :: "Header \<Rightarrow> Ballot"
  setAge :: "Header \<Rightarrow> Age \<Rightarrow> Header"
  url_Parse :: "string \<Rightarrow> error + 'u"

subsection \<open>Requests and response writers (net/http, gorilla/mux)\<close>

text \<open>
  A request as the handlers see it: the route variables of \<open>mux.Vars\<close>, the header map
  and the bytes \<open>ioutil.ReadAll(r.Body)\<close> yields (its error is discarded by every
  handler).
\<close>

record Request =
  reqVars :: "string \<rightharpoonup> string"
  reqHeader :: Header
  reqBody :: bytes

text \<open>\<open>mux.Vars(r)[name]\<close>: indexing a Go map gives the empty string for a missing key.\<close>

definition mux_Vars :: "Request \<Rightarrow> string \<Rightarrow> string" where
  "mux_Vars r name = (case reqVars r name of None \<Rightarrow> [] | Some v \<Rightarrow> v)"

definition ioutil_ReadAll :: "Request \<Rightarrow> bytes" where
  "ioutil_ReadAll r = reqBody r"

text \<open>
  An \<open>http.ResponseWriter\<close>: the status line once it is written, the header map and the
  body written so far.
\<close>

record Response =
  status :: "nat option"
  header :: Header
  body :: bytes

definition newResponse :: Response where
  "newResponse = \<lparr>status = None, header = Map.empty, body = []\<rparr>"

definition StatusOK :: nat where "StatusOK = 200"
definition StatusBadRequest :: nat where "StatusBadRequest = 400"
definition StatusPreconditionFailed :: nat where "StatusPreconditionFailed = 412"
definition StatusInternalServerError :: nat where "StatusInternalServerError = 500"

text \<open>\<open>w.WriteHeader(code)\<close>: the first call fixes the status, later calls change nothing.\<close>

definition WriteHeader :: "nat \<Rightarrow> Response \<Rightarrow> Response" where
  "WriteHeader code w = (if status w = None then w\<lparr>status := Some code\<rparr> else w)"

text \<open>\<open>w.Write(b)\<close>: writes the status 200 first when none is written yet.\<close>

definition Write :: "bytes \<Rightarrow> Response \<Rightarrow> Response" where
  "Write b w = (let w' = WriteHeader StatusOK w in w'\<lparr>body := body w' @ b\<rparr>)"

text \<open>\<open>fmt.Fprintln(w, s)\<close>: the text followed by a newline.\<close>

definition fmt_Fprintln :: "string \<Rightarrow> Response \<Rightarrow> Response" where
  "fmt_Fprintln s w = Write (s @ [NL]) w"

text \<open>
  \<open>http.Error(w, msg, code)\<close>: sets the content type headers, writes the status and then
  the message as a line.
\<close>

definition http_Error :: "string \<Rightarrow> nat \<Rightarrow> Response \<Rightarrow> Response" where
  "http_Error msg code w =
     fmt_Fprintln msg
       (WriteHeader code
         (w\<lparr>header := (header w)(''Content-Type'' \<mapsto> ''text/plain; charset=utf-8'',
                                  ''X-Content-Type-Options'' \<mapsto> ''nosniff'')\<rparr>))"

subsection \<open>bytes.Equal, bytes.Index, bytes.SplitN\<close>

definition bytes_Equal :: "bytes \<Rightarrow> bytes \<Rightarrow> bool" where
  "bytes_Equal a b = (a = b)"

text \<open>\<open>bytes.Index(s, sep)\<close>: the first position where \<open>sep\<close> occurs; Go's -1 is \<open>None\<close>.\<close>

fun bytes_Index :: "bytes \<Rightarrow> bytes \<Rightarrow> nat option" where
  "bytes_Index [] sep = (if sep = [] then Some 0 else None)"
| "bytes_Index (c # s) sep =
     (if take (length sep) (c # s) = sep then Some 0
      else map_option Suc (bytes_Index s sep))"

text \<open>
  The loop of \<open>bytes.SplitN\<close> (\<open>genSplit\<close> in the Go library), for a non-empty separator:
  while pieces may still be cut off (\<open>i < n\<close>), look for the separator, stop when there
  is none, else emit the part before it and continue behind it; the rest is the last
  piece.
\<close>

fun splitLoop :: "nat \<Rightarrow> bytes \<Rightarrow> bytes \<Rightarrow> bytes list" where
  "splitLoop 0 s sep = [s]"
| "splitLoop (Suc k) s sep =
     (case bytes_Index s sep of
        None \<Rightarrow> [s]
      | Some m \<Rightarrow> take m s # splitLoop k (drop (m + length sep) s) sep)"

text \<open>
  \<open>bytes.SplitN(s, sep, n)\<close> for \<open>n \<ge> 0\<close> and a non-empty \<open>sep\<close> (the handler passes the
  two-byte separator and \<open>n = 2\<close>): no piece for \<open>n = 0\<close>, else at most
  \<open>min n (len(s) + 1)\<close> pieces.
\<close>

definition bytes_SplitN :: "bytes \<Rightarrow> bytes \<Rightarrow> nat \<Rightarrow> bytes list" where
  "bytes_SplitN s sep n =
     (if n = 0 then [] else splitLoop (min n (length s + 1) - 1) s sep)"

subsection \<open>The update closures\<close>

text \<open>\<open>read := func(x []byte) []byte { return x }\<close> of \<open>handleGet\<close>.\<close>

definition read :: "bytes \<Rightarrow> bytes" where
  "read x = x"

text \<open>
  The closure \<open>cas\<close>, written out twice in the file with the same body: in \<open>handleCAS\<close> it
  captures the two groups of the request body, in \<open>handleDel\<close> the whole body and the
  empty slice.
\<close>

definition cas :: "bytes \<Rightarrow> bytes \<Rightarrow> bytes \<Rightarrow> bytes" where
  "cas curr' next' x = (if bytes_Equal x curr' then next' else x)"

subsection \<open>The handlers\<close>

text \<open>
  A handler takes the server, the request, the response writer and the state of the
  proposer, and returns the writer and the state as it leaves them.
\<close>

definition handleGet ::
  "('s, 'u) ProposerServer \<Rightarrow> Request \<Rightarrow> Response \<Rightarrow> 's \<Rightarrow> Response \<times> 's" where
  "handleGet ps r w s =
     (let key = mux_Vars r ''key'' in
      case Propose (proposer ps) key read s of
        (Inl err, s') \<Rightarrow> (http_Error (err_Error err) StatusInternalServerError w, s')
      | (Inr (state, b), s') \<Rightarrow>
          (Write state (w\<lparr>header := setBallot ps (header w) b\<rparr>), s'))"

text \<open>
  \<open>handleCAS\<close> indexes the result of the split without looking at its length, so it is
  the one handler that can panic; the panic leaves the function before the proposer is
  called.
\<close>

definition handleCAS ::
  "('s, 'u) ProposerServer \<Rightarrow> Request \<Rightarrow> Response \<Rightarrow> 's \<Rightarrow> panic + Response \<times> 's" where
  "handleCAS ps r w s =
     (let key = mux_Vars r ''key'';
          buf = ioutil_ReadAll r;
          groups = bytes_SplitN buf [NL, NL] 2
      in case index groups 0 of
           Inl p \<Rightarrow> Inl p
         | Inr curr' \<Rightarrow>
             (case index groups 1 of
                Inl p \<Rightarrow> Inl p
              | Inr next' \<Rightarrow>
                  Inr (case Propose (proposer ps) key (cas curr' next') s of
                         (Inl err, s') \<Rightarrow>
                           (if isConflictError err
                            then http_Error (err_Error err) StatusPreconditionFailed w
                            else http_Error (err_Error err) StatusInternalServerError w, s')
                       | (Inr (state, b), s') \<Rightarrow>
                           (Write state (w\<lparr>header := setBallot ps (header w) b\<rparr>), s'))))"

definition handleDel ::
  "('s, 'u) ProposerServer \<Rightarrow> Request \<Rightarrow> Response \<Rightarrow> 's \<Rightarrow> Response \<times> 's" where
  "handleDel ps r w s =
     (let key = mux_Vars r ''key'';
          curr' = ioutil_ReadAll r;
          next' = []
      in case Propose (proposer ps) key (cas curr' next') s of
           (Inl err, s') \<Rightarrow> (http_Error (err_Error err) StatusInternalServerError w, s')
         | (Inr (state, b), s') \<Rightarrow>
             (if \<not> bytes_Equal state next'
              then (http_Error ''conflict'' StatusPreconditionFailed w, s')
              else (Write state (w\<lparr>header := setBallot ps (header w) b\<rparr>), s')))"

text \<open>
  The four membership handlers share one body and differ in the proposer operation they
  call; \<open>membership\<close> is that body, and each handler instantiates it as the file does.
\<close>

definition membership ::
  "('u AcceptorClient \<Rightarrow> 's \<Rightarrow> error option \<times> 's) \<Rightarrow>
   ('s, 'u) ProposerServer \<Rightarrow> Request \<Rightarrow> Response \<Rightarrow> 's \<Rightarrow> Response \<times> 's" where
  "membership op ps r w s =
     (let buf = ioutil_ReadAll r in
      case url_Parse ps buf of
        Inl err \<Rightarrow> (http_Error (err_Error err) StatusBadRequest w, s)
      | Inr u \<Rightarrow>
          (let target = AcceptorClient u in
           case op target s of
             (Some err, s') \<Rightarrow> (http_Error (err_Error err) StatusInternalServerError w, s')
           | (None, s') \<Rightarrow> (fmt_Fprintln ''OK'' w, s')))"

definition handleAddAccepter ::
  "('s, 'u) ProposerServer \<Rightarrow> Request \<Rightarrow> Response \<Rightarrow> 's \<Rightarrow> Response \<times> 's" where
  "handleAddAccepter ps r w s = membership (AddAccepter (proposer ps)) ps r w s"

definition handleAddPreparer ::
  "('s, 'u) ProposerServer \<Rightarrow> Request \<Rightarrow> Response \<Rightarrow> 's \<Rightarrow> Response \<times> 's" where
  "handleAddPreparer ps r w s = membership (AddPreparer (proposer ps)) ps r w s"

definition handleRemovePreparer ::
  "('s, 'u) ProposerServer \<Rightarrow> Request \<Rightarrow> Response \<Rightarrow> 's \<Rightarrow> Response \<times> 's" where
  "handleRemovePreparer ps r w s = membership (RemovePreparer (proposer ps)) ps r w s"

definition handleRemoveAccepter ::
  "('s, 'u) ProposerServer \<Rightarrow> Request \<Rightarrow> Response \<Rightarrow> 's \<Rightarrow> Response \<times> 's" where
  "handleRemoveAccepter ps r w s = membership (RemoveAccepter (proposer ps)) ps r w s"

definition handleFullIdentityRead ::
  "('s, 'u) ProposerServer \<Rightarrow> Request \<Rightarrow> Response \<Rightarrow> 's \<Rightarrow> Response \<times> 's" where
  "handleFullIdentityRead ps r w s =
     (let key = mux_Vars r ''key'' in
      case FullIdentityRead (proposer ps) key s of
        (Inl err, s') \<Rightarrow> (http_Error (err_Error err) StatusInternalServerError w, s')
      | (Inr state, s') \<Rightarrow> (Write state w, s'))"

definition handleFastForwardIncrement ::
  "('s, 'u) ProposerServer \<Rightarrow> Request \<Rightarrow> Response \<Rightarrow> 's \<Rightarrow> Response \<times> 's" where
  "handleFastForwardIncrement ps r w s =
     (let key = mux_Vars r ''key'';
          tombstone = getBallot ps (reqHeader r)
      in case FastForwardIncrement (proposer ps) key tombstone s of
           (Inl err, s') \<Rightarrow> (http_Error (err_Error err) StatusInternalServerError w, s')
         | (Inr age, s') \<Rightarrow>
             (fmt_Fprintln ''OK'' (w\<lparr>header := setAge ps (header w) age\<rparr>), s'))"

subsection \<open>Instances for concrete checks\<close>

text \<open>
  Modelled from the spec: no implementation of the proposer is among the sources. For
  checks on concrete inputs, \<open>registerProposer\<close> is the simplest proposer the spec's
  description of a round allows: one register, every round wins, the update function is
  applied to the current value, the result is installed and returned with a fresh
  ballot. Its state is the last counter and the value of the register.
\<close>

definition registerProposer :: "(nat \<times> bytes, 'u) Proposer" where
  "registerProposer =
     \<lparr>Propose = (\<lambda>key f (n, v). (Inr (f v, \<lparr>Counter = Suc n, ID = ''p1''\<rparr>), (Suc n, f v))),
      AddAccepter = (\<lambda>target s. (None, s)),
      AddPreparer = (\<lambda>target s. (None, s)),
      RemovePreparer = (\<lambda>target s. (None, s)),
      RemoveAccepter = (\<lambda>target s. (None, s)),
      FullIdentityRead = (\<lambda>key (n, v). (Inr v, (n, v))),
      FastForwardIncrement = (\<lambda>key t (n, v).
         (Inr \<lparr>Counter = Suc (max n (Counter t)), ID = ''p1''\<rparr>,
          (Suc (max n (Counter t)), v)))\<rparr>"

text \<open>A proposer every operation of which fails with the given error.\<close>

definition failingProposer :: "error \<Rightarrow> ('s, 'u) Proposer" where
  "failingProposer e =
     \<lparr>Propose = (\<lambda>key f s. (Inl e, s)),
      AddAccepter = (\<lambda>target s. (Some e, s)),
      AddPreparer = (\<lambda>target s. (Some e, s)),
      RemovePreparer = (\<lambda>target s. (Some e, s)),
      RemoveAccepter = (\<lambda>target s. (Some e, s)),
      FullIdentityRead = (\<lambda>key s. (Inl e, s)),
      FastForwardIncrement = (\<lambda>key t s. (Inl e, s))\<rparr>"

text \<open>
  A server around a proposer, with stand-ins for the four parameters: the header helpers
  keep the proposer identifier of a ballot under a header name of their own, and the
  parser rejects a text with a newline in it (\<open>url.Parse\<close> rejects control characters)
  and takes any other text as the URL.
\<close>

definition testServer :: "('s, string) Proposer \<Rightarrow> ('s, string) ProposerServer" where
  "testServer p =
     \<lparr>proposer = p,
      setBallot = (\<lambda>h b. h(''Ballot-ID'' \<mapsto> ID b)),
      getBallot = (\<lambda>h. \<lparr>Counter = 0,
                          ID = (case h ''Ballot-ID'' of None \<Rightarrow> [] | Some v \<Rightarrow> v)\<rparr>),
      setAge = (\<lambda>h a. h(''Age-ID'' \<mapsto> ID a)),
      url_Parse = (\<lambda>t. if NL \<in> set t
                        then Inl (OtherError ''net/url: invalid control character in URL'')
                        else Inr t)\<rparr>"

text \<open>A request on the key \<open>foo\<close> with the given body and no header.\<close>

definition testRequest :: "bytes \<Rightarrow> Request" where
  "testRequest b = \<lparr>reqVars = [''key'' \<mapsto> ''foo''], reqHeader = Map.empty, reqBody = b\<rparr>"

section \<open>Properties\<close>

subsection \<open>Auxiliary facts\<close>

lemmas writer_defs = newResponse_def WriteHeader_def Write_def fmt_Fprintln_def http_Error_def
  StatusOK_def StatusBadRequest_def StatusPreconditionFailed_def StatusInternalServerError_def

lemmas test_defs = testServer_def testRequest_def registerProposer_def failingProposer_def
  mux_Vars_def

text \<open>A separator behind a newline-free prefix is found right behind that prefix.\<close>

lemma bytes_Index_separator:
  "NL \<notin> set e \<Longrightarrow> bytes_Index (e @ NL # NL # n) [NL, NL] = Some (length e)"
  by (induction e) auto

text \<open>
  The wire form of a compare-and-set request: the expected value, the separator, the
  new value. It is split back into the two when the expected value has no newline.
\<close>

lemma bytes_SplitN_encoded:
  "NL \<notin> set e \<Longrightarrow> bytes_SplitN (e @ [NL, NL] @ n) [NL, NL] 2 = [e, n]"
  by (simp add: bytes_SplitN_def bytes_Index_separator numeral_2_eq_2)

text \<open>A body without the separator is split into one group, itself.\<close>

lemma bytes_SplitN_no_separator:
  "bytes_Index t [NL, NL] = None \<Longrightarrow> bytes_SplitN t [NL, NL] 2 = [t]"
  by (cases t) (auto simp add: bytes_SplitN_def numeral_2_eq_2 min_def split: if_splits)

text \<open>... and then the second index expression of \<open>handleCAS\<close> panics, for every server.\<close>

lemma handleCAS_no_separator_panics:
  "bytes_Index (reqBody r) [NL, NL] = None \<Longrightarrow>
   handleCAS ps r w s = Inl (IndexOutOfRange 1 1)"
  by (simp add: handleCAS_def ioutil_ReadAll_def index_def bytes_SplitN_no_separator)

text \<open>What each handler that calls \<open>Propose\<close> answers when the round fails.\<close>

lemma handleGet_error_status:
  "Propose (proposer ps) (mux_Vars r ''key'') read s = (Inl err, s') \<Longrightarrow>
   status (fst (handleGet ps r newResponse s)) = Some 500"
  by (simp add: handleGet_def writer_defs)

lemma handleDel_error_status:
  "Propose (proposer ps) (mux_Vars r ''key'') (cas (reqBody r) []) s = (Inl err, s') \<Longrightarrow>
   status (fst (handleDel ps r newResponse s)) = Some 500"
  by (simp add: handleDel_def ioutil_ReadAll_def writer_defs)

lemma handleCAS_error_status:
  "bytes_SplitN (reqBody r) [NL, NL] 2 = [expect, new] \<Longrightarrow>
   Propose (proposer ps) (mux_Vars r ''key'') (cas expect new) s = (Inl err, s') \<Longrightarrow>
   handleCAS ps r newResponse s = Inr (w', s'') \<Longrightarrow>
   status w' = Some (if isConflictError err then 412 else 500)"
  by (auto simp add: handleCAS_def ioutil_ReadAll_def index_def writer_defs)

text \<open>
  \<open>handleCAS\<close> on a body that splits into two groups: no panic, and the round is run with
  the closure over these two groups.
\<close>

lemma handleCAS_unfold:
  "bytes_SplitN (reqBody r) [NL, NL] 2 = [c, n] \<Longrightarrow>
   handleCAS ps r w s =
     Inr (case Propose (proposer ps) (mux_Vars r ''key'') (cas c n) s of
            (Inl err, s') \<Rightarrow>
              (http_Error (err_Error err) (if isConflictError err then 412 else 500) w, s')
          | (Inr (state, b), s') \<Rightarrow>
              (Write state (w\<lparr>header := setBallot ps (header w) b\<rparr>), s'))"
  by (simp add: handleCAS_def ioutil_ReadAll_def index_def StatusPreconditionFailed_def
      StatusInternalServerError_def split: prod.splits sum.splits)

subsection \<open>Errors of the proposer and the status of the response\<close>

text \<open>
  C1. The claim: for every operation of the binding, a \<open>ConflictError\<close> of the proposer
  becomes the status 412 and any other failure the status 500; in particular every
  handler that calls \<open>Propose\<close> maps a \<open>ConflictError\<close> to 412.

  The code does so in \<open>handleCAS\<close> only. \<open>handleGet\<close> and \<open>handleDel\<close> test \<open>err != nil\<close>
  alone: with a proposer whose round fails with a \<open>ConflictError\<close>, a get and a delete
  are answered with the status 500, while the same failure in a compare-and-set is
  answered with 412.
\<close>

theorem conflict_error_not_mapped_by_get_and_del:
  "handleGet (testServer (failingProposer (ConflictError ''conflict''))) (testRequest [])
     newResponse () =
     (\<lparr>status = Some 500,
       header = [''Content-Type'' \<mapsto> ''text/plain; charset=utf-8'',
                 ''X-Content-Type-Options'' \<mapsto> ''nosniff''],
       body = ''conflict'' @ [NL]\<rparr>, ())
   \<and> handleDel (testServer (failingProposer (ConflictError ''conflict''))) (testRequest ''bar'')
     newResponse () =
     (\<lparr>status = Some 500,
       header = [''Content-Type'' \<mapsto> ''text/plain; charset=utf-8'',
                 ''X-Content-Type-Options'' \<mapsto> ''nosniff''],
       body = ''conflict'' @ [NL]\<rparr>, ())
   \<and> handleCAS (testServer (failingProposer (ConflictError ''conflict'')))
     (testRequest (''bar'' @ [NL, NL] @ ''baz'')) newResponse () =
     Inr (\<lparr>status = Some 412,
       header = [''Content-Type'' \<mapsto> ''text/plain; charset=utf-8'',
                 ''X-Content-Type-Options'' \<mapsto> ''nosniff''],
       body = ''conflict'' @ [NL]\<rparr>, ())"
proof -
  let ?ps = "testServer (failingProposer (ConflictError ''conflict'')) :: (unit, string) ProposerServer"
  have g: "handleGet ?ps (testRequest []) newResponse () =
     (\<lparr>status = Some 500,
       header = [''Content-Type'' \<mapsto> ''text/plain; charset=utf-8'',
                 ''X-Content-Type-Options'' \<mapsto> ''nosniff''],
       body = ''conflict'' @ [NL]\<rparr>, ())"
    by (simp add: handleGet_def test_defs writer_defs)
  have d: "handleDel ?ps (testRequest ''bar'') newResponse () =
     (\<lparr>status = Some 500,
       header = [''Content-Type'' \<mapsto> ''text/plain; charset=utf-8'',
                 ''X-Content-Type-Options'' \<mapsto> ''nosniff''],
       body = ''conflict'' @ [NL]\<rparr>, ())"
    by (simp add: handleDel_def ioutil_ReadAll_def test_defs writer_defs)
  have split: "bytes_SplitN (reqBody (testRequest (''bar'' @ [NL, NL] @ ''baz''))) [NL, NL] 2
      = [''bar'', ''baz'']"
    unfolding testRequest_def Request.simps
    by (rule bytes_SplitN_encoded) (simp add: NL_def)
  have c: "handleCAS ?ps (testRequest (''bar'' @ [NL, NL] @ ''baz'')) newResponse () =
     Inr (\<lparr>status = Some 412,
       header = [''Content-Type'' \<mapsto> ''text/plain; charset=utf-8'',
                 ''X-Content-Type-Options'' \<mapsto> ''nosniff''],
       body = ''conflict'' @ [NL]\<rparr>, ())"
    by (subst handleCAS_unfold [OF split]) (simp add: test_defs writer_defs)
  from g d c show ?thesis by blast
qed

subsection \<open>Compare-and-set\<close>

text \<open>
  C2. The update function that \<open>handleCAS\<close> builds from a request carrying the groups
  (expect, new) is the conditional swap: it yields \<open>new\<close> on the state \<open>expect\<close> and leaves
  every other state as it is. When the round run with this function succeeds, the
  response has the status 200, the state returned by the round as its body and the
  installed ballot in its header.
\<close>

theorem handleCAS_conditional_swap:
  assumes "bytes_SplitN (reqBody r) [NL, NL] 2 = [expect, new]"
      and "Propose (proposer ps) (mux_Vars r ''key'') (cas expect new) s = (Inr (state, b), s')"
  shows "cas expect new x = (if x = expect then new else x) \<and>
         handleCAS ps r newResponse s =
           Inr (\<lparr>status = Some 200, header = setBallot ps Map.empty b, body = state\<rparr>, s')"
  using assms
  by (simp add: handleCAS_def cas_def bytes_Equal_def index_def ioutil_ReadAll_def writer_defs)


text \<open>
  An instance: the register holds \<open>bar\<close>, the request expects \<open>wrong\<close>; the round
  succeeds with a new ballot and the state \<open>bar\<close> unchanged.
\<close>

theorem handleCAS_conditional_swap_witness:
  "bytes_SplitN (reqBody (testRequest (''wrong'' @ [NL, NL] @ ''baz''))) [NL, NL] 2
     = [''wrong'', ''baz'']
   \<and> Propose (proposer (testServer registerProposer))
       (mux_Vars (testRequest (''wrong'' @ [NL, NL] @ ''baz'')) ''key'')
       (cas ''wrong'' ''baz'') (2, ''bar'')
     = (Inr (''bar'', \<lparr>Counter = 3, ID = ''p1''\<rparr>), (3, ''bar''))
   \<and> cas ''wrong'' ''baz'' ''bar'' = ''bar''
   \<and> handleCAS (testServer registerProposer) (testRequest (''wrong'' @ [NL, NL] @ ''baz''))
       newResponse (2, ''bar'')
     = Inr (\<lparr>status = Some 200, header = [''Ballot-ID'' \<mapsto> ''p1''], body = ''bar''\<rparr>,
            (3, ''bar''))"
proof -
  have h1: "bytes_SplitN (reqBody (testRequest (''wrong'' @ [NL, NL] @ ''baz''))) [NL, NL] 2
     = [''wrong'', ''baz'']"
    unfolding testRequest_def Request.simps
    by (rule bytes_SplitN_encoded) (simp add: NL_def)
  have h2: "Propose (proposer (testServer registerProposer))
       (mux_Vars (testRequest (''wrong'' @ [NL, NL] @ ''baz'')) ''key'')
       (cas ''wrong'' ''baz'') (2, ''bar'')
     = (Inr (''bar'', \<lparr>Counter = 3, ID = ''p1''\<rparr>), (3, ''bar''))"
    by (simp add: test_defs cas_def bytes_Equal_def)
  show ?thesis
    using h1 h2 handleCAS_conditional_swap [OF h1 h2, of "''bar''"]
    by (simp add: testServer_def)
qed

subsection \<open>Delete\<close>

text \<open>
  C3. When the round of a delete request succeeds, \<open>handleDel\<close> compares the state that
  \<open>Propose\<close> returned with the empty target. If they differ, the response has the status
  412 and the fixed line \<open>conflict\<close> as its body (the text and a newline, as \<open>http.Error\<close>
  writes it): no error value of the proposer is involved, and no ballot is put into the
  header. If they are equal, the response has the status 200, the empty state as its
  body and the installed ballot in its header.
\<close>

theorem handleDel_mismatch_precondition_failed:
  assumes "Propose (proposer ps) (mux_Vars r ''key'') (cas (reqBody r) []) s
             = (Inr (state, b), s')"
  shows "handleDel ps r newResponse s =
           (if state \<noteq> []
            then \<lparr>status = Some 412,
                  header = [''Content-Type'' \<mapsto> ''text/plain; charset=utf-8'',
                            ''X-Content-Type-Options'' \<mapsto> ''nosniff''],
                  body = ''conflict'' @ [NL]\<rparr>
            else \<lparr>status = Some 200, header = setBallot ps Map.empty b, body = []\<rparr>,
            s')"
  using assms by (simp add: handleDel_def ioutil_ReadAll_def bytes_Equal_def writer_defs)

text \<open>
  An instance: the register holds \<open>bar\<close>, the request expects \<open>stale\<close>; the round
  succeeds, the state stays \<open>bar\<close> and the answer is 412.
\<close>

theorem handleDel_mismatch_precondition_failed_witness:
  "Propose (proposer (testServer registerProposer)) (mux_Vars (testRequest ''stale'') ''key'')
       (cas (reqBody (testRequest ''stale'')) []) (3, ''bar'')
     = (Inr (''bar'', \<lparr>Counter = 4, ID = ''p1''\<rparr>), (4, ''bar''))
   \<and> handleDel (testServer registerProposer) (testRequest ''stale'') newResponse (3, ''bar'')
     = (\<lparr>status = Some 412,
         header = [''Content-Type'' \<mapsto> ''text/plain; charset=utf-8'',
                   ''X-Content-Type-Options'' \<mapsto> ''nosniff''],
         body = ''conflict'' @ [NL]\<rparr>, (4, ''bar''))"
proof -
  have h: "Propose (proposer (testServer registerProposer))
       (mux_Vars (testRequest ''stale'') ''key'')
       (cas (reqBody (testRequest ''stale'')) []) (3, ''bar'')
     = (Inr (''bar'', \<lparr>Counter = 4, ID = ''p1''\<rparr>), (4, ''bar''))"
    by (simp add: test_defs cas_def bytes_Equal_def)
  show ?thesis
    using h handleDel_mismatch_precondition_failed [OF h] by simp
qed

subsection \<open>A compare-and-set body without separator\<close>

text \<open>
  C4. The claim: for a body without the separator the split yields fewer than two
  groups, and the accesses \<open>groups[0]\<close> and \<open>groups[1]\<close> are within bounds, so that
  \<open>handleCAS\<close> is total over all request bodies.

  The first half holds and refutes the second: on the body \<open>bar\<close> the split yields the
  one group \<open>bar\<close>, and \<open>groups[1]\<close> panics with an index out of range (index 1, length
  1) before the proposer is called. The lemma \<open>handleCAS_no_separator_panics\<close> above
  shows the same for every body without separator.
\<close>

theorem handleCAS_panics_without_separator:
  "bytes_SplitN (reqBody (testRequest ''bar'')) [NL, NL] 2 = [''bar'']
   \<and> handleCAS (testServer registerProposer) (testRequest ''bar'') newResponse (0, [])
       = Inl (IndexOutOfRange 1 1)"
  by (simp add: handleCAS_def index_def ioutil_ReadAll_def testRequest_def bytes_SplitN_def
      NL_def)

subsection \<open>Membership requests with a malformed endpoint\<close>

text \<open>
  C5. When \<open>url.Parse\<close> fails on the body of a membership request, each of the four
  handlers (add-accepter, add-preparer, remove-preparer, remove-accepter) answers with
  the status 400 and the text of the parse error, and returns the state of the proposer
  as it was. This holds whatever the proposer \<open>p\<close> behind the server is, so the
  membership operation is not invoked.
\<close>

theorem membership_malformed_bad_request:
  assumes "url_Parse ps (reqBody r) = Inl err"
  shows "handleAddAccepter (ps\<lparr>proposer := p\<rparr>) r newResponse s =
           (\<lparr>status = Some 400,
             header = [''Content-Type'' \<mapsto> ''text/plain; charset=utf-8'',
                       ''X-Content-Type-Options'' \<mapsto> ''nosniff''],
             body = err_Error err @ [NL]\<rparr>, s)
       \<and> handleAddPreparer (ps\<lparr>proposer := p\<rparr>) r newResponse s =
           (\<lparr>status = Some 400,
             header = [''Content-Type'' \<mapsto> ''text/plain; charset=utf-8'',
                       ''X-Content-Type-Options'' \<mapsto> ''nosniff''],
             body = err_Error err @ [NL]\<rparr>, s)
       \<and> handleRemovePreparer (ps\<lparr>proposer := p\<rparr>) r newResponse s =
           (\<lparr>status = Some 400,
             header = [''Content-Type'' \<mapsto> ''text/plain; charset=utf-8'',
                       ''X-Content-Type-Options'' \<mapsto> ''nosniff''],
             body = err_Error err @ [NL]\<rparr>, s)
       \<and> handleRemoveAccepter (ps\<lparr>proposer := p\<rparr>) r newResponse s =
           (\<lparr>status = Some 400,
             header = [''Content-Type'' \<mapsto> ''text/plain; charset=utf-8'',
                       ''X-Content-Type-Options'' \<mapsto> ''nosniff''],
             body = err_Error err @ [NL]\<rparr>, s)"
  using assms
  by (simp add: handleAddAccepter_def handleAddPreparer_def handleRemovePreparer_def
      handleRemoveAccepter_def membership_def ioutil_ReadAll_def writer_defs)

text \<open>
  An instance: a body with a newline in it, in front of a proposer whose membership
  operations would all fail; the answer is 400 and not the 500 of a failed operation.
\<close>

theorem membership_malformed_bad_request_witness:
  "url_Parse (testServer registerProposer) (reqBody (testRequest (''http://a'' @ [NL])))
     = Inl (OtherError ''net/url: invalid control character in URL'')
   \<and> handleAddAccepter ((testServer registerProposer)\<lparr>proposer := failingProposer (QuorumError ''q'')\<rparr>)
        (testRequest (''http://a'' @ [NL])) newResponse (0, ''bar'')
     = (\<lparr>status = Some 400,
         header = [''Content-Type'' \<mapsto> ''text/plain; charset=utf-8'',
                   ''X-Content-Type-Options'' \<mapsto> ''nosniff''],
         body = ''net/url: invalid control character in URL'' @ [NL]\<rparr>, (0, ''bar''))"
proof -
  have h: "url_Parse (testServer registerProposer) (reqBody (testRequest (''http://a'' @ [NL])))
     = Inl (OtherError ''net/url: invalid control character in URL'')"
    by (simp add: test_defs)
  show ?thesis
    using h membership_malformed_bad_request [OF h, of "failingProposer (QuorumError ''q'')" "(0, ''bar'')"]
    by simp
qed

subsection \<open>Get\<close>

text \<open>
  C6. \<open>handleGet\<close> runs the round with the identity function \<open>read\<close>. When the round
  succeeds and, as a round does, returns the update function applied to the current
  value of the register, the response has the status 200, that current value unchanged
  as its body and the installed ballot in its header.
\<close>

theorem handleGet_reads_current_value:
  assumes "Propose (proposer ps) (mux_Vars r ''key'') read s = (Inr (read current, b), s')"
  shows "read x = x \<and>
         handleGet ps r newResponse s =
           (\<lparr>status = Some 200, header = setBallot ps Map.empty b, body = current\<rparr>, s')"
  using assms by (simp add: handleGet_def read_def writer_defs)

text \<open>An instance: the register holds \<open>bar\<close>.\<close>

theorem handleGet_reads_current_value_witness:
  "Propose (proposer (testServer registerProposer)) (mux_Vars (testRequest []) ''key'') read
       (2, ''bar'')
     = (Inr (read ''bar'', \<lparr>Counter = 3, ID = ''p1''\<rparr>), (3, ''bar''))
   \<and> read ''bar'' = ''bar''
   \<and> handleGet (testServer registerProposer) (testRequest []) newResponse (2, ''bar'')
     = (\<lparr>status = Some 200, header = [''Ballot-ID'' \<mapsto> ''p1''], body = ''bar''\<rparr>,
        (3, ''bar''))"
proof -
  have h: "Propose (proposer (testServer registerProposer)) (mux_Vars (testRequest []) ''key'')
       read (2, ''bar'')
     = (Inr (read ''bar'', \<lparr>Counter = 3, ID = ''p1''\<rparr>), (3, ''bar''))"
    by (simp add: test_defs read_def)
  show ?thesis
    using h handleGet_reads_current_value [OF h, of "''bar''"]
    by (simp add: testServer_def)
qed

subsection \<open>The update function of delete\<close>

text \<open>
  C7. The update function that \<open>handleDel\<close> builds from a request with the expected
  value as its body is the conditional delete: it yields the empty state on the
  expected value and leaves every other state as it is. \<open>handleDel\<close> runs the round with
  this function: when the round succeeds and returns the function applied to the base
  state, the proposer is left in the state the round left it in, and when the base
  state is the expected value the delete is answered with 200, the empty state and the
  installed ballot.
\<close>

theorem handleDel_conditional_delete:
  assumes "Propose (proposer ps) (mux_Vars r ''key'') (cas (reqBody r) []) s
             = (Inr (cas (reqBody r) [] base, b), s')"
  shows "cas (reqBody r) [] x = (if x = reqBody r then [] else x) \<and>
         snd (handleDel ps r w s) = s' \<and>
         (base = reqBody r \<longrightarrow>
            handleDel ps r newResponse s =
              (\<lparr>status = Some 200, header = setBallot ps Map.empty b, body = []\<rparr>, s'))"
  using assms
  by (simp add: handleDel_def ioutil_ReadAll_def cas_def bytes_Equal_def writer_defs)

text \<open>An instance: the register holds \<open>bar\<close> and the request expects \<open>bar\<close>.\<close>

theorem handleDel_conditional_delete_witness:
  "Propose (proposer (testServer registerProposer)) (mux_Vars (testRequest ''bar'') ''key'')
       (cas (reqBody (testRequest ''bar'')) []) (3, ''bar'')
     = (Inr (cas (reqBody (testRequest ''bar'')) [] ''bar'', \<lparr>Counter = 4, ID = ''p1''\<rparr>),
        (4, []))
   \<and> ''bar'' = reqBody (testRequest ''bar'')
   \<and> cas (reqBody (testRequest ''bar'')) [] ''bar'' = []
   \<and> handleDel (testServer registerProposer) (testRequest ''bar'') newResponse (3, ''bar'')
     = (\<lparr>status = Some 200, header = [''Ballot-ID'' \<mapsto> ''p1''], body = []\<rparr>, (4, []))"
proof -
  have h: "Propose (proposer (testServer registerProposer))
       (mux_Vars (testRequest ''bar'') ''key'')
       (cas (reqBody (testRequest ''bar'')) []) (3, ''bar'')
     = (Inr (cas (reqBody (testRequest ''bar'')) [] ''bar'', \<lparr>Counter = 4, ID = ''p1''\<rparr>),
        (4, []))"
    by (simp add: test_defs cas_def bytes_Equal_def)
  have e: "''bar'' = reqBody (testRequest ''bar'')"
    by (simp add: testRequest_def)
  show ?thesis
    using h e handleDel_conditional_delete [OF h, of "''bar''" newResponse]
    by (simp add: testServer_def)
qed

subsection \<open>Fast-forward increment\<close>

text \<open>
  C8. \<open>handleFastForwardIncrement\<close> passes to the proposer the tombstone that \<open>getBallot\<close>
  reads from the header of the request. When the proposer returns an age, the response
  has the status 200, the header that \<open>setAge\<close> makes of the age, and the line \<open>OK\<close> as
  its body. So the ballot and the age travel in headers: the body of the request has
  no influence on the answer, and the body of the response does not depend on the age.
\<close>

theorem handleFastForwardIncrement_headers:
  assumes "FastForwardIncrement (proposer ps) (mux_Vars r ''key'') (getBallot ps (reqHeader r)) s
             = (Inr age, s')"
  shows "handleFastForwardIncrement ps r newResponse s =
           (\<lparr>status = Some 200, header = setAge ps Map.empty age, body = ''OK'' @ [NL]\<rparr>, s')
       \<and> handleFastForwardIncrement ps (r\<lparr>reqBody := any\<rparr>) newResponse s =
           handleFastForwardIncrement ps r newResponse s"
  using assms
  by (simp add: handleFastForwardIncrement_def mux_Vars_def writer_defs)

text \<open>An instance: a tombstone header on a register whose last counter is 4.\<close>

theorem handleFastForwardIncrement_headers_witness:
  "FastForwardIncrement (proposer (testServer registerProposer))
       (mux_Vars ((testRequest [])\<lparr>reqHeader := [''Ballot-ID'' \<mapsto> ''p2'']\<rparr>) ''key'')
       (getBallot (testServer registerProposer)
          (reqHeader ((testRequest [])\<lparr>reqHeader := [''Ballot-ID'' \<mapsto> ''p2'']\<rparr>)))
       (4, ''bar'')
     = (Inr \<lparr>Counter = 5, ID = ''p1''\<rparr>, (5, ''bar''))
   \<and> handleFastForwardIncrement (testServer registerProposer)
       ((testRequest [])\<lparr>reqHeader := [''Ballot-ID'' \<mapsto> ''p2'']\<rparr>) newResponse (4, ''bar'')
     = (\<lparr>status = Some 200, header = [''Age-ID'' \<mapsto> ''p1''], body = ''OK'' @ [NL]\<rparr>,
        (5, ''bar''))"
proof -
  have h: "FastForwardIncrement (proposer (testServer registerProposer))
       (mux_Vars ((testRequest [])\<lparr>reqHeader := [''Ballot-ID'' \<mapsto> ''p2'']\<rparr>) ''key'')
       (getBallot (testServer registerProposer)
          (reqHeader ((testRequest [])\<lparr>reqHeader := [''Ballot-ID'' \<mapsto> ''p2'']\<rparr>)))
       (4, ''bar'')
     = (Inr \<lparr>Counter = 5, ID = ''p1''\<rparr>, (5, ''bar''))"
    by (simp add: test_defs)
  show ?thesis
    using h handleFastForwardIncrement_headers [OF h]
    by (simp add: testServer_def)
qed

subsection \<open>Delete on an empty register\<close>

text \<open>
  C9. When the current state of the register is already empty and the round succeeds
  (it returns the update function applied to the empty state), \<open>handleDel\<close> answers with
  the status 200 and an empty body, whatever expected value the body of the request
  carries: the check after the round compares the returned state with the empty target
  only.
\<close>

theorem handleDel_already_empty:
  assumes "Propose (proposer ps) (mux_Vars r ''key'') (cas (reqBody r) []) s
             = (Inr (cas (reqBody r) [] [], b), s')"
  shows "handleDel ps r newResponse s =
           (\<lparr>status = Some 200, header = setBallot ps Map.empty b, body = []\<rparr>, s')"
  using assms
  by (simp add: handleDel_def ioutil_ReadAll_def cas_def bytes_Equal_def writer_defs)

text \<open>An instance: the register is empty and the request expects \<open>stale\<close>.\<close>

theorem handleDel_already_empty_witness:
  "Propose (proposer (testServer registerProposer)) (mux_Vars (testRequest ''stale'') ''key'')
       (cas (reqBody (testRequest ''stale'')) []) (4, [])
     = (Inr (cas (reqBody (testRequest ''stale'')) [] [], \<lparr>Counter = 5, ID = ''p1''\<rparr>),
        (5, []))
   \<and> handleDel (testServer registerProposer) (testRequest ''stale'') newResponse (4, [])
     = (\<lparr>status = Some 200, header = [''Ballot-ID'' \<mapsto> ''p1''], body = []\<rparr>, (5, []))"
proof -
  have h: "Propose (proposer (testServer registerProposer))
       (mux_Vars (testRequest ''stale'') ''key'')
       (cas (reqBody (testRequest ''stale'')) []) (4, [])
     = (Inr (cas (reqBody (testRequest ''stale'')) [] [], \<lparr>Counter = 5, ID = ''p1''\<rparr>),
        (5, []))"
    by (simp add: test_defs cas_def bytes_Equal_def)
  show ?thesis
    using h handleDel_already_empty [OF h]
    by (simp add: testServer_def)
qed

subsection \<open>Algebra of the update closures\<close>

text \<open>
  C10. The closure \<open>cas\<close> is idempotent, for every expected value, replacement and state,
  as \<open>handleCAS\<close> builds it (any replacement) and as \<open>handleDel\<close> builds it (the empty
  replacement); and it is the identity when the expected value equals the replacement.
\<close>

theorem cas_idempotent:
  "cas curr' next' (cas curr' next' x) = cas curr' next' x
   \<and> cas curr' [] (cas curr' [] x) = cas curr' [] x
   \<and> cas curr' curr' x = x"
  by (simp add: cas_def bytes_Equal_def)

end
